theory Spec2Isabelle
  imports Complex_Main
begin

section \<open>The traceability matrix of ProjectIQ\<close>

text \<open>
  A shallow embedding of \<^verbatim>\<open>components/brd/TraceabilityMatrix.tsx\<close>: the construction of
  the data sources with their \<^verbatim>\<open>SRC-N\<close> identifiers, the attribution of requirements and
  objectives to a source, the link list, and the two coverage figures of the rendered
  card.

  The component reads untyped JSON. The model fixes the shapes the rest of the
  repository writes: a field that holds text is a \<^typ>\<open>string option\<close>, where \<open>None\<close>
  stands for an absent (\<^verbatim>\<open>undefined\<close> or \<^verbatim>\<open>null\<close>) field; an entry of
  \<^verbatim>\<open>raw_sources\<close> is a string or an object; a JSON column is an array or null. An
  array entry that is itself null, on which the component's property reads throw, and
  fields of other types are outside the model. One \<^typ>\<open>char\<close> stands for one code unit
  of a JavaScript string.
\<close>

subsection \<open>JavaScript operators on optional strings\<close>

text \<open>Truthiness of a string-valued field: absent and the empty string are falsy.\<close>

definition truthy :: "string option \<Rightarrow> bool" where
  "truthy v = (case v of None \<Rightarrow> False | Some s \<Rightarrow> s \<noteq> [])"

text \<open>\<^verbatim>\<open>a || b\<close>, where \<open>b\<close> may itself be absent.\<close>

definition js_or :: "string option \<Rightarrow> string option \<Rightarrow> string option" where
  "js_or a b = (if truthy a then a else b)"

text \<open>\<^verbatim>\<open>a || d\<close>, where \<open>d\<close> is a string.\<close>

definition js_or_default :: "string option \<Rightarrow> string \<Rightarrow> string" where
  "js_or_default a d = (case a of None \<Rightarrow> d | Some s \<Rightarrow> if s \<noteq> [] then s else d)"

text \<open>\<^verbatim>\<open>x?.substring(0, n)\<close>.\<close>

definition substring0 :: "nat \<Rightarrow> string option \<Rightarrow> string option" where
  "substring0 n v = map_option (take n) v"

text \<open>\<^verbatim>\<open>Array.isArray(x) ? x : []\<close> and \<^verbatim>\<open>x || []\<close> on a JSON column that is an array or null.\<close>

definition array_or_empty :: "'a list option \<Rightarrow> 'a list" where
  "array_or_empty v = (case v of None \<Rightarrow> [] | Some xs \<Rightarrow> xs)"

text \<open>\<^verbatim>\<open>xs[0]\<close>: the first element, \<^verbatim>\<open>undefined\<close> on the empty array.\<close>

definition first_element :: "'a list \<Rightarrow> 'a option" where
  "first_element xs = (case xs of [] \<Rightarrow> None | x # _ \<Rightarrow> Some x)"

text \<open>\<^verbatim>\<open>a ?? b\<close>.\<close>

definition nullish_or :: "'a option \<Rightarrow> 'a option \<Rightarrow> 'a option" where
  "nullish_or a b = (case a of None \<Rightarrow> b | Some x \<Rightarrow> Some x)"

text \<open>
  A non-negative integer inside a template literal: its decimal digits, most
  significant first, no leading zero.
\<close>

definition digit_char :: "nat \<Rightarrow> char" where
  "digit_char d = char_of (48 + d)"

fun decimal :: "nat \<Rightarrow> string" where
  "decimal n = (if n < 10 then [digit_char n] else decimal (n div 10) @ [digit_char (n mod 10)])"

declare decimal.simps [simp del]

text \<open>The dash of the link label, U+2014, written as its UTF-8 bytes.\<close>

definition em_dash :: string where
  "em_dash = [CHR 0xE2, CHR 0x80, CHR 0x94]"

subsection \<open>Data\<close>

text \<open>An entry of \<^verbatim>\<open>brds.raw_sources\<close>: a bare string or an object.\<close>

record raw_source_object =
  rs_name :: "string option"
  rs_type :: "string option"
  rs_content :: "string option"
  rs_metadata :: "(string \<times> string) list option"

datatype raw_source = RawString string | RawObject raw_source_object

record raw_objective =
  bo_id :: "string option"
  bo_description :: "string option"
  bo_source_doc :: "string option"

record raw_requirement =
  rr_id :: "string option"
  rr_title :: "string option"
  rr_description :: "string option"
  rr_source_doc :: "string option"
  rr_source_quote :: "string option"
  rr_citation_verified :: "bool option"

record brd =
  raw_sources :: "raw_source list option"
  business_objectives :: "raw_objective list option"
  functional_requirements :: "raw_requirement list option"
  non_functional_requirements :: "raw_requirement list option"

text \<open>A row of \<^verbatim>\<open>tasks\<close>, with the four selected columns.\<close>

record task =
  t_id :: string
  t_title :: string
  t_requirement_id :: "string option"
  t_status :: string

text \<open>The objects the component builds.\<close>

record data_source =
  s_id :: string
  s_srcKey :: string
  s_name :: string
  s_type :: string
  s_content :: "string option"
  s_metadata :: "(string \<times> string) list"

record objective =
  o_id :: "string option"
  o_name :: "string option"
  o_source :: "string option"

record requirement =
  r_id :: "string option"
  r_name :: "string option"
  r_source :: "string option"
  r_sourceQuote :: "string option"
  r_citationVerified :: "bool option"
  r_type :: string

record link_source =
  src_id :: "string option"
  src_type :: string
  src_name :: "string option"
  src_excerpt :: "string option"

record link_target =
  tgt_id :: "string option"
  tgt_type :: string
  tgt_name :: "string option"

record traceability_link =
  source :: link_source
  target :: link_target

record traceability =
  sources :: "data_source list"
  objectives :: "objective list"
  requirements :: "requirement list"
  tasks :: "task list"
  links :: "traceability_link list"

datatype error = BrdError string | TasksError string

subsection \<open>Source identifiers and source types\<close>

definition buildSourceId :: "nat \<Rightarrow> string" where
  "buildSourceId idx = ''SRC-'' @ decimal (idx + 1)"

record source_type_config =
  icon :: string
  color :: string
  bg :: string
  label :: string

definition source_type_table :: "(string \<times> source_type_config) list" where
  "source_type_table =
    [(''gmail'', \<lparr>icon = ''Mail'', color = ''text-red-400'', bg = ''bg-red-500/20'', label = ''Gmail''\<rparr>),
     (''email'', \<lparr>icon = ''Mail'', color = ''text-red-400'', bg = ''bg-red-500/20'', label = ''Email''\<rparr>),
     (''slack'', \<lparr>icon = ''MessageSquare'', color = ''text-purple-400'', bg = ''bg-purple-500/20'', label = ''Slack''\<rparr>),
     (''fireflies'', \<lparr>icon = ''Video'', color = ''text-orange-400'', bg = ''bg-orange-500/20'', label = ''Fireflies''\<rparr>),
     (''transcript'', \<lparr>icon = ''Video'', color = ''text-orange-400'', bg = ''bg-orange-500/20'', label = ''Transcript''\<rparr>),
     (''document'', \<lparr>icon = ''FileUp'', color = ''text-blue-400'', bg = ''bg-blue-500/20'', label = ''Document''\<rparr>),
     (''text'', \<lparr>icon = ''FileText'', color = ''text-slate-400'', bg = ''bg-slate-500/20'', label = ''Text''\<rparr>)]"

text \<open>
  \<^verbatim>\<open>SOURCE_TYPE_CONFIG\<close> is an object literal, so a property read also finds what the
  object inherits from \<^verbatim>\<open>Object.prototype\<close>.
\<close>

datatype property = Config source_type_config | Inherited string

definition object_prototype_names :: "string list" where
  "object_prototype_names =
    [''constructor'', ''__defineGetter__'', ''__defineSetter__'', ''hasOwnProperty'',
     ''__lookupGetter__'', ''__lookupSetter__'', ''isPrototypeOf'', ''propertyIsEnumerable'',
     ''toString'', ''valueOf'', ''__proto__'', ''toLocaleString'']"

definition SOURCE_TYPE_CONFIG :: "string \<Rightarrow> property option" where
  "SOURCE_TYPE_CONFIG key =
     (case map_of source_type_table key of
        Some c \<Rightarrow> Some (Config c)
      | None \<Rightarrow> if key \<in> set object_prototype_names then Some (Inherited key) else None)"

text \<open>
  \<^verbatim>\<open>String.prototype.toLowerCase\<close> follows the Unicode case mappings. It is the parameter
  \<open>toLowerCase\<close> of the lookup, so that what is proved of the lookup holds for the
  function the engine provides.
\<close>

definition getSourceTypeConfig :: "(string \<Rightarrow> string) \<Rightarrow> string \<Rightarrow> property option" where
  "getSourceTypeConfig toLowerCase type =
     nullish_or (SOURCE_TYPE_CONFIG (toLowerCase type)) (SOURCE_TYPE_CONFIG ''document'')"

subsection \<open>Building the sources, objectives and requirements\<close>

definition raw_name :: "raw_source \<Rightarrow> string option" where
  "raw_name s = (case s of RawString _ \<Rightarrow> None | RawObject ob \<Rightarrow> rs_name ob)"

definition raw_type :: "raw_source \<Rightarrow> string option" where
  "raw_type s = (case s of RawString _ \<Rightarrow> None | RawObject ob \<Rightarrow> rs_type ob)"

definition raw_content :: "raw_source \<Rightarrow> string option" where
  "raw_content s = (case s of RawString str \<Rightarrow> Some str | RawObject ob \<Rightarrow> rs_content ob)"

definition raw_metadata :: "raw_source \<Rightarrow> (string \<times> string) list" where
  "raw_metadata s = (case s of RawString _ \<Rightarrow> [] | RawObject ob \<Rightarrow> array_or_empty (rs_metadata ob))"

definition build_source :: "nat \<Rightarrow> raw_source \<Rightarrow> data_source" where
  "build_source idx s =
     \<lparr>s_id = buildSourceId idx,
      s_srcKey = ''source-'' @ decimal idx,
      s_name = js_or_default (raw_name s) (js_or_default (raw_type s) (''Source '' @ decimal (idx + 1))),
      s_type = js_or_default (raw_type s) ''document'',
      s_content = raw_content s,
      s_metadata = raw_metadata s\<rparr>"

definition build_sources :: "raw_source list \<Rightarrow> data_source list" where
  "build_sources rawSources = map (\<lambda>(idx, s). build_source idx s) (enumerate 0 rawSources)"

definition build_objective :: "raw_objective \<Rightarrow> objective" where
  "build_objective ob =
     \<lparr>o_id = bo_id ob,
      o_name = js_or (substring0 60 (bo_description ob)) (bo_id ob),
      o_source = bo_source_doc ob\<rparr>"

definition build_requirement :: "string \<Rightarrow> raw_requirement \<Rightarrow> requirement" where
  "build_requirement ty r =
     \<lparr>r_id = rr_id r,
      r_name = js_or (rr_title r) (js_or (substring0 50 (rr_description r)) (rr_id r)),
      r_source = rr_source_doc r,
      r_sourceQuote = rr_source_quote r,
      r_citationVerified = rr_citation_verified r,
      r_type = ty\<rparr>"

definition build_requirements :: "raw_requirement list \<Rightarrow> raw_requirement list \<Rightarrow> requirement list" where
  "build_requirements funcReqs nonFuncReqs =
     map (build_requirement ''functional'') funcReqs @
     map (build_requirement ''non-functional'') nonFuncReqs"

subsection \<open>Building the links\<close>

text \<open>The source a requirement is matched to (lines 123 to 125).\<close>

definition matchedSource_requirement :: "data_source list \<Rightarrow> requirement \<Rightarrow> data_source option" where
  "matchedSource_requirement srcs req =
     nullish_or
       (find (\<lambda>s. Some (s_type s) = r_source req \<or> Some (s_id s) = r_source req
                  \<or> Some (s_name s) = r_source req) srcs)
       (first_element srcs)"

text \<open>The source an objective is matched to (lines 141 to 143).\<close>

definition matchedSource_objective :: "data_source list \<Rightarrow> objective \<Rightarrow> data_source option" where
  "matchedSource_objective srcs obj =
     nullish_or
       (find (\<lambda>s. Some (s_type s) = o_source obj \<or> Some (s_name s) = o_source obj) srcs)
       (first_element srcs)"

definition source_label :: "data_source \<Rightarrow> string" where
  "source_label m = s_id m @ '' '' @ em_dash @ '' '' @ s_name m"

text \<open>The three link literals (lines 128 to 136, 145 to 148 and 156 to 159).\<close>

definition requirement_link :: "data_source \<Rightarrow> requirement \<Rightarrow> traceability_link" where
  "requirement_link m req =
     \<lparr>source = \<lparr>src_id = Some (s_id m), src_type = ''source'',
                 src_name = Some (source_label m), src_excerpt = r_sourceQuote req\<rparr>,
      target = \<lparr>tgt_id = r_id req, tgt_type = ''requirement'', tgt_name = r_name req\<rparr>\<rparr>"

definition objective_link :: "data_source \<Rightarrow> objective \<Rightarrow> traceability_link" where
  "objective_link m obj =
     \<lparr>source = \<lparr>src_id = Some (s_id m), src_type = ''source'',
                 src_name = Some (source_label m), src_excerpt = None\<rparr>,
      target = \<lparr>tgt_id = o_id obj, tgt_type = ''objective'', tgt_name = o_name obj\<rparr>\<rparr>"

definition task_link :: "requirement \<Rightarrow> task \<Rightarrow> traceability_link" where
  "task_link req t =
     \<lparr>source = \<lparr>src_id = r_id req, src_type = ''requirement'',
                 src_name = r_name req, src_excerpt = None\<rparr>,
      target = \<lparr>tgt_id = Some (t_id t), tgt_type = ''task'', tgt_name = Some (t_title t)\<rparr>\<rparr>"

text \<open>The bodies of the three \<^verbatim>\<open>forEach\<close> loops: each takes the link array and returns it.\<close>

definition push_requirement_link ::
  "data_source list \<Rightarrow> requirement \<Rightarrow> traceability_link list \<Rightarrow> traceability_link list" where
  "push_requirement_link srcs req ls =
     (case matchedSource_requirement srcs req of
        None \<Rightarrow> ls
      | Some m \<Rightarrow> ls @ [requirement_link m req])"

definition push_objective_link ::
  "data_source list \<Rightarrow> objective \<Rightarrow> traceability_link list \<Rightarrow> traceability_link list" where
  "push_objective_link srcs obj ls =
     (case matchedSource_objective srcs obj of
        None \<Rightarrow> ls
      | Some m \<Rightarrow> ls @ [objective_link m obj])"

definition push_task_link ::
  "requirement list \<Rightarrow> task \<Rightarrow> traceability_link list \<Rightarrow> traceability_link list" where
  "push_task_link reqs t ls =
     (if truthy (t_requirement_id t) then
        (case find (\<lambda>r. r_id r = t_requirement_id t) reqs of
           None \<Rightarrow> ls
         | Some req \<Rightarrow> ls @ [task_link req t])
      else ls)"

definition build_links ::
  "data_source list \<Rightarrow> objective list \<Rightarrow> requirement list \<Rightarrow> task list \<Rightarrow> traceability_link list" where
  "build_links srcs objs reqs ts =
     fold (push_task_link reqs) ts
       (fold (push_objective_link srcs) objs
          (fold (push_requirement_link srcs) reqs []))"

subsection \<open>The fetch\<close>

text \<open>
  \<open>fetchTraceability\<close> receives the answers of the two queries. A query error is thrown
  and the state is not set; otherwise the state is set to the record returned here.
\<close>

definition build_traceability :: "brd \<Rightarrow> task list option \<Rightarrow> traceability" where
  "build_traceability b ts =
     (let srcs = build_sources (array_or_empty (raw_sources b));
          objs = map build_objective (array_or_empty (business_objectives b));
          reqs = build_requirements (array_or_empty (functional_requirements b))
                   (array_or_empty (non_functional_requirements b))
      in \<lparr>sources = srcs, objectives = objs, requirements = reqs,
          tasks = array_or_empty ts,
          links = build_links srcs objs reqs (array_or_empty ts)\<rparr>)"

definition fetchTraceability :: "error + brd \<Rightarrow> error + task list option \<Rightarrow> error + traceability" where
  "fetchTraceability brd_answer tasks_answer =
     (case brd_answer of
        Inl brdError \<Rightarrow> Inl brdError
      | Inr b \<Rightarrow>
          (case tasks_answer of
             Inl tasksError \<Rightarrow> Inl tasksError
           | Inr ts \<Rightarrow> Inr (build_traceability b ts)))"

subsection \<open>Coverage analysis of the rendered card\<close>

text \<open>
  The two figures are quotients of array lengths. They are modelled as rationals; the
  component computes them in double precision, which is exact on the numerators and
  denominators and rounds the quotient.
\<close>

definition requirements_with_sources :: "requirement list \<Rightarrow> nat" where
  "requirements_with_sources reqs = length (filter (\<lambda>r. truthy (r_source r)) reqs)"

definition source_coverage :: "requirement list \<Rightarrow> rat" where
  "source_coverage reqs =
     (if length reqs > 0 then of_nat (requirements_with_sources reqs) / of_nat (length reqs) else 0)"

text \<open>\<^verbatim>\<open>new Set(...).size\<close> is the number of distinct elements.\<close>

definition requirements_with_tasks :: "task list \<Rightarrow> nat" where
  "requirements_with_tasks ts =
     length (remdups (map t_requirement_id (filter (\<lambda>t. truthy (t_requirement_id t)) ts)))"

definition task_coverage :: "requirement list \<Rightarrow> task list \<Rightarrow> rat" where
  "task_coverage reqs ts =
     (if length reqs > 0 then of_nat (requirements_with_tasks ts) / of_nat (length reqs) else 0)"

text \<open>The widths of the two progress bars, in percent.\<close>

definition source_coverage_width :: "requirement list \<Rightarrow> rat" where
  "source_coverage_width reqs = source_coverage reqs * 100"

definition task_coverage_width :: "requirement list \<Rightarrow> task list \<Rightarrow> rat" where
  "task_coverage_width reqs ts = task_coverage reqs ts * 100"

definition unverified_citations :: "requirement list \<Rightarrow> nat" where
  "unverified_citations reqs = length (filter (\<lambda>r. r_citationVerified r = Some False) reqs)"

subsection \<open>What the three loops leave in the link array\<close>

text \<open>
  The links of each loop, described without the loop: the list of the links of those
  items that get one, in the order of the items.
\<close>

definition requirement_section :: "data_source list \<Rightarrow> requirement list \<Rightarrow> traceability_link list" where
  "requirement_section srcs reqs =
     List.map_filter
       (\<lambda>req. map_option (\<lambda>m. requirement_link m req) (matchedSource_requirement srcs req)) reqs"

definition objective_section :: "data_source list \<Rightarrow> objective list \<Rightarrow> traceability_link list" where
  "objective_section srcs objs =
     List.map_filter
       (\<lambda>obj. map_option (\<lambda>m. objective_link m obj) (matchedSource_objective srcs obj)) objs"

definition task_section :: "requirement list \<Rightarrow> task list \<Rightarrow> traceability_link list" where
  "task_section reqs ts =
     List.map_filter
       (\<lambda>t. if truthy (t_requirement_id t)
            then map_option (\<lambda>req. task_link req t) (find (\<lambda>r. r_id r = t_requirement_id t) reqs)
            else None) ts"

text \<open>The nodes of the state, each as its kind and its identifier.\<close>

definition node_keys :: "traceability \<Rightarrow> (string \<times> string option) set" where
  "node_keys tr =
     (\<lambda>s. (''source'', Some (s_id s))) ` set (sources tr) \<union>
     (\<lambda>ob. (''objective'', o_id ob)) ` set (objectives tr) \<union>
     (\<lambda>r. (''requirement'', r_id r)) ` set (requirements tr) \<union>
     (\<lambda>t. (''task'', Some (t_id t))) ` set (tasks tr)"

definition is_source_requirement_link :: "traceability_link \<Rightarrow> bool" where
  "is_source_requirement_link l \<longleftrightarrow> src_type (source l) = ''source'' \<and> tgt_type (target l) = ''requirement''"

definition is_source_objective_link :: "traceability_link \<Rightarrow> bool" where
  "is_source_objective_link l \<longleftrightarrow> src_type (source l) = ''source'' \<and> tgt_type (target l) = ''objective''"

definition is_requirement_task_link :: "traceability_link \<Rightarrow> bool" where
  "is_requirement_task_link l \<longleftrightarrow> src_type (source l) = ''requirement'' \<and> tgt_type (target l) = ''task''"

text \<open>Reading a decimal numeral back, to show that \<open>decimal\<close> is injective.\<close>

definition digit_value :: "char \<Rightarrow> nat" where
  "digit_value c = of_char c - 48"

definition decimal_value :: "string \<Rightarrow> nat" where
  "decimal_value s = foldl (\<lambda>acc c. acc * 10 + digit_value c) 0 s"

subsection \<open>The specification's wording, for comparison\<close>

text \<open>
  The attribution as an ordered chain over the whole registry: by origin type, then by
  identifier, then by display name, then the first source.
\<close>

definition spec_resolve :: "data_source list \<Rightarrow> string option \<Rightarrow> data_source option" where
  "spec_resolve srcs src =
     nullish_or (find (\<lambda>s. Some (s_type s) = src) srcs)
       (nullish_or (find (\<lambda>s. Some (s_id s) = src) srcs)
          (nullish_or (find (\<lambda>s. Some (s_name s) = src) srcs) (first_element srcs)))"

text \<open>The link order: objective links, then requirement links, then task links.\<close>

definition spec_link_rank :: "traceability_link \<Rightarrow> nat" where
  "spec_link_rank l =
     (if is_source_objective_link l then 0 else if is_source_requirement_link l then 1 else 2)"

definition spec_link_order :: "traceability_link list \<Rightarrow> bool" where
  "spec_link_order ls = sorted (map spec_link_rank ls)"

text \<open>
  The coverage figures counted on the links: the distinct requirement identifiers with a
  link from a source, or with a link to a task.
\<close>

definition spec_requirements_with_source_links :: "traceability_link list \<Rightarrow> requirement list \<Rightarrow> nat" where
  "spec_requirements_with_source_links ls reqs =
     length (remdups (filter
       (\<lambda>rid. rid \<in> set (map (\<lambda>l. tgt_id (target l)) (filter is_source_requirement_link ls)))
       (map r_id reqs)))"

definition spec_source_coverage :: "traceability_link list \<Rightarrow> requirement list \<Rightarrow> rat" where
  "spec_source_coverage ls reqs =
     (if length reqs > 0
      then of_nat (spec_requirements_with_source_links ls reqs) / of_nat (length reqs) else 0)"

definition spec_requirements_with_task_links :: "traceability_link list \<Rightarrow> requirement list \<Rightarrow> nat" where
  "spec_requirements_with_task_links ls reqs =
     length (remdups (filter
       (\<lambda>rid. rid \<in> set (map (\<lambda>l. src_id (source l)) (filter is_requirement_task_link ls)))
       (map r_id reqs)))"

definition spec_task_coverage :: "traceability_link list \<Rightarrow> requirement list \<Rightarrow> rat" where
  "spec_task_coverage ls reqs =
     (if length reqs > 0
      then of_nat (spec_requirements_with_task_links ls reqs) / of_nat (length reqs) else 0)"

subsection \<open>Inputs of the scenarios\<close>

definition source_of_type :: "string \<Rightarrow> raw_source" where
  "source_of_type ty = RawObject \<lparr>rs_name = None, rs_type = Some ty, rs_content = None, rs_metadata = None\<rparr>"

definition source_named :: "string \<Rightarrow> string \<Rightarrow> raw_source" where
  "source_named ty nm =
     RawObject \<lparr>rs_name = Some nm, rs_type = Some ty, rs_content = None, rs_metadata = None\<rparr>"

definition requirement_from :: "string \<Rightarrow> string option \<Rightarrow> raw_requirement" where
  "requirement_from ident src =
     \<lparr>rr_id = Some ident, rr_title = None, rr_description = None, rr_source_doc = src,
      rr_source_quote = None, rr_citation_verified = None\<rparr>"

definition objective_from :: "string \<Rightarrow> string option \<Rightarrow> raw_objective" where
  "objective_from ident src = \<lparr>bo_id = Some ident, bo_description = None, bo_source_doc = src\<rparr>"

definition task_for :: "string \<Rightarrow> string option \<Rightarrow> task" where
  "task_for ident rid = \<lparr>t_id = ident, t_title = ''task'', t_requirement_id = rid, t_status = ''todo''\<rparr>"

definition brd_of ::
  "raw_source list \<Rightarrow> raw_objective list \<Rightarrow> raw_requirement list \<Rightarrow> raw_requirement list \<Rightarrow> brd" where
  "brd_of raws objs funcReqs nonFuncReqs =
     \<lparr>raw_sources = Some raws, business_objectives = Some objs,
      functional_requirements = Some funcReqs, non_functional_requirements = Some nonFuncReqs\<rparr>"

section \<open>Properties\<close>

subsection \<open>Source identifiers\<close>

lemma digit_value_digit_char: "d < 10 \<Longrightarrow> digit_value (digit_char d) = d"
  by (simp add: digit_value_def digit_char_def)

lemma decimal_value_decimal: "decimal_value (decimal n) = n"
proof (induction n rule: decimal.induct)
  case (1 n)
  show ?case
  proof (cases "n < 10")
    case True
    then show ?thesis
      by (simp add: decimal.simps [of n] decimal_value_def digit_value_digit_char)
  next
    case False
    with 1 have "decimal_value (decimal (n div 10)) = n div 10" by simp
    with False show ?thesis
      by (simp add: decimal.simps [of n] decimal_value_def digit_value_digit_char)
  qed
qed

lemma decimal_inj: "decimal m = decimal n \<Longrightarrow> m = n"
  by (metis decimal_value_decimal)

lemma buildSourceId_inj: "buildSourceId i = buildSourceId j \<Longrightarrow> i = j"
  by (auto simp: buildSourceId_def dest: decimal_inj)

lemma map_build_source_enumerate:
  "map (\<lambda>(idx, s). build_source idx s) (enumerate k raws) =
   map2 build_source [k..<k + length raws] raws"
  by (induction raws arbitrary: k) (simp_all add: upt_conv_Cons del: upt_Suc)

lemma build_sources_map2: "build_sources raws = map2 build_source [0..<length raws] raws"
  by (simp add: build_sources_def map_build_source_enumerate)

lemma length_build_sources: "length (build_sources raws) = length raws"
  by (simp add: build_sources_def)

lemma build_sources_nth:
  "i < length raws \<Longrightarrow> build_sources raws ! i = build_source i (raws ! i)"
  by (simp add: build_sources_map2)

lemma map_s_id_build_sources:
  "map s_id (build_sources raws) = map buildSourceId [0..<length raws]"
  by (rule nth_equalityI) (simp_all add: length_build_sources build_sources_nth build_source_def)

lemma distinct_source_ids: "distinct (map s_id (build_sources raws))"
  by (simp add: map_s_id_build_sources distinct_map inj_on_def) (blast dest: buildSourceId_inj)

lemma build_sources_append:
  "build_sources (raws @ [r]) = build_sources raws @ [build_source (length raws) r]"
  by (rule nth_equalityI)
     (auto simp: length_build_sources build_sources_nth nth_append less_Suc_eq)

text \<open>
  C6. The registry has one source per raw entry, and the source at 0-based index \<open>i\<close> is
  built from the raw entry at index \<open>i\<close>: it carries that entry's content and type and
  the identifier \<^verbatim>\<open>SRC-\<close> followed by the decimal numeral of \<open>i + 1\<close>. The identifiers
  of one list are pairwise distinct. Appending a raw source leaves the registry of the
  earlier entries as it was, identifiers included, and adds at its end the source built
  from the new entry, with the next number. The registry is a function of the list, so
  a second run on the same list gives the same identifiers.
\<close>

theorem source_ids_sequential:
  "length (build_sources raws) = length raws
   \<and> (\<forall>i<length raws.
         build_sources raws ! i = build_source i (raws ! i)
       \<and> s_id (build_sources raws ! i) = ''SRC-'' @ decimal (i + 1)
       \<and> s_content (build_sources raws ! i) = raw_content (raws ! i)
       \<and> s_type (build_sources raws ! i) = js_or_default (raw_type (raws ! i)) ''document'')
   \<and> map s_id (build_sources raws) = map (\<lambda>i. ''SRC-'' @ decimal (i + 1)) [0..<length raws]
   \<and> distinct (map s_id (build_sources raws))
   \<and> build_sources (raws @ [r]) = build_sources raws @ [build_source (length raws) r]
   \<and> s_id (build_source (length raws) r) = ''SRC-'' @ decimal (length raws + 1)
   \<and> s_content (build_source (length raws) r) = raw_content r
   \<and> map s_id (build_sources (raws @ [r])) =
       map s_id (build_sources raws) @ [''SRC-'' @ decimal (length raws + 1)]"
proof -
  have nth: "\<forall>i<length raws.
         build_sources raws ! i = build_source i (raws ! i)
       \<and> s_id (build_sources raws ! i) = ''SRC-'' @ decimal (i + 1)
       \<and> s_content (build_sources raws ! i) = raw_content (raws ! i)
       \<and> s_type (build_sources raws ! i) = js_or_default (raw_type (raws ! i)) ''document''"
    by (simp add: build_sources_nth build_source_def buildSourceId_def)
  have new: "s_id (build_source (length raws) r) = ''SRC-'' @ decimal (length raws + 1)
       \<and> s_content (build_source (length raws) r) = raw_content r"
    by (simp add: build_source_def buildSourceId_def)
  have ids: "map s_id (build_sources raws) = map (\<lambda>i. ''SRC-'' @ decimal (i + 1)) [0..<length raws]"
    using map_s_id_build_sources [of raws] by (simp add: buildSourceId_def)
  have app: "map s_id (build_sources (raws @ [r])) =
       map s_id (build_sources raws) @ [''SRC-'' @ decimal (length raws + 1)]"
    using new by (simp add: build_sources_append)
  from nth new ids app length_build_sources [of raws] distinct_source_ids [of raws]
    build_sources_append [of raws r]
  show ?thesis by blast
qed

text \<open>
  An \<^verbatim>\<open>email\<close> entry and a \<^verbatim>\<open>slack\<close> entry are \<^verbatim>\<open>SRC-1\<close> and \<^verbatim>\<open>SRC-2\<close> in that order;
  after a \<^verbatim>\<open>zoom\<close> entry is appended they still are, and the new source is \<^verbatim>\<open>SRC-3\<close>.
\<close>

theorem source_ids_sequential_witness:
  "map (\<lambda>s. (s_id s, s_type s)) (build_sources [source_of_type ''email'', source_of_type ''slack''])
     = [(''SRC-1'', ''email''), (''SRC-2'', ''slack'')]
   \<and> map (\<lambda>s. (s_id s, s_type s))
       (build_sources ([source_of_type ''email'', source_of_type ''slack''] @ [source_of_type ''zoom'']))
     = [(''SRC-1'', ''email''), (''SRC-2'', ''slack''), (''SRC-3'', ''zoom'')]"
proof -
  let ?raws = "[source_of_type ''email'', source_of_type ''slack'']"
  let ?r = "source_of_type ''zoom''"
  let ?f = "\<lambda>s. (s_id s, s_type s)"
  note th = source_ids_sequential [of ?raws ?r]
  have i0: "(0::nat) < length ?raws" and i1: "(1::nat) < length ?raws" by simp_all
  from th have n: "length (build_sources ?raws) = 2" by simp
  from th i0 have s0: "build_sources ?raws ! 0 = build_source 0 (?raws ! 0)" by blast
  from th i1 have s1: "build_sources ?raws ! 1 = build_source 1 (?raws ! 1)" by blast
  from th have app: "build_sources (?raws @ [?r]) = build_sources ?raws @ [build_source (length ?raws) ?r]"
    by blast
  have e0: "?f (build_source 0 (?raws ! 0)) = (''SRC-1'', ''email'')" by code_simp
  have e1: "?f (build_source 1 (?raws ! 1)) = (''SRC-2'', ''slack'')" by code_simp
  have e2: "?f (build_source (length ?raws) ?r) = (''SRC-3'', ''zoom'')" by code_simp
  have two: "build_sources ?raws = [build_sources ?raws ! 0, build_sources ?raws ! 1]"
    using n by (intro nth_equalityI) (auto simp: less_Suc_eq numeral_2_eq_2)
  have a: "map ?f (build_sources ?raws) = [(''SRC-1'', ''email''), (''SRC-2'', ''slack'')]"
    by (subst two) (simp only: list.map s0 s1 e0 e1)
  have b: "map ?f (build_sources (?raws @ [?r])) =
        [(''SRC-1'', ''email''), (''SRC-2'', ''slack''), (''SRC-3'', ''zoom'')]"
    by (subst app) (simp only: map_append a list.map e2 append.simps)
  from a b show ?thesis by blast
qed

subsection \<open>The link array\<close>

lemma fold_push_requirement_link:
  "fold (push_requirement_link srcs) reqs ls = ls @ requirement_section srcs reqs"
  by (induction reqs arbitrary: ls)
     (simp_all add: push_requirement_link_def requirement_section_def
        split: option.splits)

lemma fold_push_objective_link:
  "fold (push_objective_link srcs) objs ls = ls @ objective_section srcs objs"
  by (induction objs arbitrary: ls)
     (simp_all add: push_objective_link_def objective_section_def 
        split: option.splits)

lemma fold_push_task_link:
  "fold (push_task_link reqs) ts ls = ls @ task_section reqs ts"
  by (induction ts arbitrary: ls)
     (simp_all add: push_task_link_def task_section_def 
        split: option.splits)

lemma build_links_sections:
  "build_links srcs objs reqs ts =
     requirement_section srcs reqs @ objective_section srcs objs @ task_section reqs ts"
  by (simp add: build_links_def fold_push_requirement_link fold_push_objective_link
      fold_push_task_link)

lemma requirement_section_kind:
  "l \<in> set (requirement_section srcs reqs) \<Longrightarrow> is_source_requirement_link l"
  by (auto simp: requirement_section_def List.map_filter_def requirement_link_def
      is_source_requirement_link_def)

lemma objective_section_kind:
  "l \<in> set (objective_section srcs objs) \<Longrightarrow> is_source_objective_link l"
  by (auto simp: objective_section_def List.map_filter_def objective_link_def
      is_source_objective_link_def)

lemma task_section_kind:
  "l \<in> set (task_section reqs ts) \<Longrightarrow> is_requirement_task_link l"
  by (auto simp: task_section_def List.map_filter_def task_link_def
      is_requirement_task_link_def split: if_splits)

text \<open>
  C5, as the code has it. The link array holds first the links from a source to a
  requirement, in the order of the requirement list (functional requirements before
  non-functional ones), then the links from a source to an objective, in the order of
  the objective list, then the links from a requirement to a task, in the order of the
  task list.
\<close>

theorem link_order:
  "links (build_traceability b ts) =
     requirement_section (sources (build_traceability b ts)) (requirements (build_traceability b ts))
     @ objective_section (sources (build_traceability b ts)) (objectives (build_traceability b ts))
     @ task_section (requirements (build_traceability b ts)) (tasks (build_traceability b ts))
   \<and> (\<forall>l \<in> set (requirement_section (sources (build_traceability b ts))
                   (requirements (build_traceability b ts))). is_source_requirement_link l)
   \<and> (\<forall>l \<in> set (objective_section (sources (build_traceability b ts))
                   (objectives (build_traceability b ts))). is_source_objective_link l)
   \<and> (\<forall>l \<in> set (task_section (requirements (build_traceability b ts))
                   (tasks (build_traceability b ts))). is_requirement_task_link l)"
  by (simp add: build_traceability_def Let_def build_links_sections requirement_section_kind
      objective_section_kind task_section_kind)

text \<open>
  C5 as stated puts the objective links first. With one source, one objective and one
  requirement the array is the requirement link followed by the objective link.
\<close>

theorem link_order_counterexample:
  "\<not> spec_link_order (links (build_traceability
        (brd_of [source_of_type ''email''] [objective_from ''BO-1'' None]
           [requirement_from ''FR-1'' (Some ''email'')] []) None))
   \<and> map (\<lambda>l. (src_id (source l), tgt_type (target l), tgt_id (target l)))
       (links (build_traceability
        (brd_of [source_of_type ''email''] [objective_from ''BO-1'' None]
           [requirement_from ''FR-1'' (Some ''email'')] []) None))
     = [(Some ''SRC-1'', ''requirement'', Some ''FR-1''), (Some ''SRC-1'', ''objective'', Some ''BO-1'')]"
  by code_simp

lemma first_element_conv: "first_element xs = (if xs = [] then None else Some (xs ! 0))"
  by (cases xs) (simp_all add: first_element_def)

lemma first_element_in: "first_element xs = Some x \<Longrightarrow> x \<in> set xs"
  by (cases xs) (auto simp: first_element_def)

lemma find_in: "find P xs = Some x \<Longrightarrow> x \<in> set xs"
  by (auto simp: find_Some_iff)

lemma matchedSource_requirement_in:
  "matchedSource_requirement srcs req = Some m \<Longrightarrow> m \<in> set srcs"
  by (auto simp: matchedSource_requirement_def nullish_or_def split: option.splits
      dest: find_in first_element_in)

lemma matchedSource_objective_in:
  "matchedSource_objective srcs obj = Some m \<Longrightarrow> m \<in> set srcs"
  by (auto simp: matchedSource_objective_def nullish_or_def split: option.splits
      dest: find_in first_element_in)



lemma requirement_section_elem:
  "l \<in> set (requirement_section srcs reqs) \<Longrightarrow>
     \<exists>m \<in> set srcs. \<exists>req \<in> set reqs. l = requirement_link m req"
  by (auto simp: requirement_section_def List.map_filter_def)
     (blast dest: matchedSource_requirement_in)

lemma objective_section_elem:
  "l \<in> set (objective_section srcs objs) \<Longrightarrow>
     \<exists>m \<in> set srcs. \<exists>obj \<in> set objs. l = objective_link m obj"
  by (auto simp: objective_section_def List.map_filter_def)
     (blast dest: matchedSource_objective_in)

lemma task_section_elem:
  "l \<in> set (task_section reqs ts) \<Longrightarrow>
     \<exists>req \<in> set reqs. \<exists>t \<in> set ts. l = task_link req t"
  by (auto simp: task_section_def List.map_filter_def split: if_splits)
     (blast dest: find_in)

lemma target_task_section:
  "map target (task_section reqs ts) =
     map (\<lambda>t. \<lparr>tgt_id = Some (t_id t), tgt_type = ''task'', tgt_name = Some (t_title t)\<rparr>)
       (filter (\<lambda>t. truthy (t_requirement_id t) \<and> t_requirement_id t \<in> r_id ` set reqs) ts)"
proof (induction ts)
  case Nil
  show ?case by (simp add: task_section_def)
next
  case (Cons t ts)
  show ?case
  proof (cases "find (\<lambda>r. r_id r = t_requirement_id t) reqs")
    case None
    then have "t_requirement_id t \<notin> r_id ` set reqs"
      by (auto simp: find_None_iff)
    with None Cons show ?thesis
      by (simp add: task_section_def)
  next
    case (Some r)
    then have "r \<in> set reqs" and "r_id r = t_requirement_id t"
      by (auto simp: find_Some_iff)
    then have "t_requirement_id t \<in> r_id ` set reqs"
      by force
    with Some Cons show ?thesis
      by (simp add: task_section_def task_link_def)
  qed
qed



lemma filter_none: "(\<And>x. x \<in> set xs \<Longrightarrow> \<not> P x) \<Longrightarrow> filter P xs = []"
  by (simp add: filter_empty_conv)

lemma filter_all: "(\<And>x. x \<in> set xs \<Longrightarrow> P x) \<Longrightarrow> filter P xs = xs"
  by (simp add: filter_id_conv)



lemma filter_task_links:
  "filter is_requirement_task_link (build_links srcs objs reqs ts) = task_section reqs ts"
proof -
  have a: "filter is_requirement_task_link (requirement_section srcs reqs) = []"
    by (rule filter_none)
       (auto dest!: requirement_section_kind simp: is_requirement_task_link_def is_source_requirement_link_def)
  have b: "filter is_requirement_task_link (objective_section srcs objs) = []"
    by (rule filter_none)
       (auto dest!: objective_section_kind simp: is_requirement_task_link_def is_source_objective_link_def)
  have c: "filter is_requirement_task_link (task_section reqs ts) = task_section reqs ts"
    by (rule filter_all) (rule task_section_kind)
  show ?thesis by (simp only: build_links_sections filter_append a b c append_Nil2 append_Nil)
qed

lemma links_build_traceability:
  "links (build_traceability b ts) =
     build_links (sources (build_traceability b ts)) (objectives (build_traceability b ts))
       (requirements (build_traceability b ts)) (tasks (build_traceability b ts))"
  by (simp add: build_traceability_def Let_def)

lemma sources_build_traceability:
  "sources (build_traceability b ts) = build_sources (array_or_empty (raw_sources b))"
  by (simp add: build_traceability_def Let_def)

lemma link_endpoints_exist:
  assumes "l \<in> set (build_links (sources tr) (objectives tr) (requirements tr) (tasks tr))"
  shows "(src_type (source l), src_id (source l)) \<in> node_keys tr
       \<and> (tgt_type (target l), tgt_id (target l)) \<in> node_keys tr"
proof -
  from assms consider
      (req) "l \<in> set (requirement_section (sources tr) (requirements tr))"
    | (obj) "l \<in> set (objective_section (sources tr) (objectives tr))"
    | (tsk) "l \<in> set (task_section (requirements tr) (tasks tr))"
    by (auto simp: build_links_sections)
  then show ?thesis
  proof cases
    case req
    then obtain m r where "m \<in> set (sources tr)" "r \<in> set (requirements tr)"
      "l = requirement_link m r"
      using requirement_section_elem by blast
    then show ?thesis by (simp add: node_keys_def requirement_link_def image_iff) blast
  next
    case obj
    then obtain m ob where "m \<in> set (sources tr)" "ob \<in> set (objectives tr)"
      "l = objective_link m ob"
      using objective_section_elem by blast
    then show ?thesis by (simp add: node_keys_def objective_link_def image_iff) blast
  next
    case tsk
    then obtain r t where "r \<in> set (requirements tr)" "t \<in> set (tasks tr)"
      "l = task_link r t"
      using task_section_elem by blast
    then show ?thesis by (simp add: node_keys_def task_link_def image_iff) blast
  qed
qed

lemma filter_task_targets:
  "filter (\<lambda>l. tgt_type (target l) = ''task'') (build_links srcs objs reqs ts) = task_section reqs ts"
proof -
  have a: "filter (\<lambda>l. tgt_type (target l) = ''task'') (requirement_section srcs reqs) = []"
    by (rule filter_none) (auto dest!: requirement_section_kind simp: is_source_requirement_link_def)
  have b: "filter (\<lambda>l. tgt_type (target l) = ''task'') (objective_section srcs objs) = []"
    by (rule filter_none) (auto dest!: objective_section_kind simp: is_source_objective_link_def)
  have c: "filter (\<lambda>l. tgt_type (target l) = ''task'') (task_section reqs ts) = task_section reqs ts"
    by (rule filter_all) (auto dest!: task_section_kind simp: is_requirement_task_link_def)
  show ?thesis by (simp only: build_links_sections filter_append a b c append_Nil2 append_Nil)
qed

text \<open>
  C7. The fetch returns a state and no error. Both ends of every link of that state name
  a node of the state: a source, an objective, a requirement or a task of the same kind
  and identifier. The links to tasks are, in order, those of the tasks whose
  \<^verbatim>\<open>requirement_id\<close> is truthy and is the identifier of some requirement: a task whose
  \<^verbatim>\<open>requirement_id\<close> matches no requirement has no link.
\<close>

theorem no_dangling_links:
  "fetchTraceability (Inr b) (Inr ts) = Inr (build_traceability b ts)
   \<and> (\<forall>l \<in> set (links (build_traceability b ts)).
        (src_type (source l), src_id (source l)) \<in> node_keys (build_traceability b ts)
      \<and> (tgt_type (target l), tgt_id (target l)) \<in> node_keys (build_traceability b ts))
   \<and> map target (filter (\<lambda>l. tgt_type (target l) = ''task'') (links (build_traceability b ts))) =
       map (\<lambda>t. \<lparr>tgt_id = Some (t_id t), tgt_type = ''task'', tgt_name = Some (t_title t)\<rparr>)
         (filter (\<lambda>t. truthy (t_requirement_id t)
                     \<and> t_requirement_id t \<in> r_id ` set (requirements (build_traceability b ts)))
            (tasks (build_traceability b ts)))"
proof -
  have "fetchTraceability (Inr b) (Inr ts) = Inr (build_traceability b ts)"
    by (simp add: fetchTraceability_def)
  moreover have "\<forall>l \<in> set (links (build_traceability b ts)).
        (src_type (source l), src_id (source l)) \<in> node_keys (build_traceability b ts)
      \<and> (tgt_type (target l), tgt_id (target l)) \<in> node_keys (build_traceability b ts)"
    unfolding links_build_traceability by (intro ballI) (rule link_endpoints_exist)
  moreover have "map target (filter (\<lambda>l. tgt_type (target l) = ''task'') (links (build_traceability b ts))) =
       map (\<lambda>t. \<lparr>tgt_id = Some (t_id t), tgt_type = ''task'', tgt_name = Some (t_title t)\<rparr>)
         (filter (\<lambda>t. truthy (t_requirement_id t)
                     \<and> t_requirement_id t \<in> r_id ` set (requirements (build_traceability b ts)))
            (tasks (build_traceability b ts)))"
    unfolding links_build_traceability filter_task_targets by (rule target_task_section)
  ultimately show ?thesis by blast
qed

lemma filter_source_links:
  "filter (\<lambda>l. src_type (source l) = ''source'') (build_links srcs objs reqs ts) =
     requirement_section srcs reqs @ objective_section srcs objs"
proof -
  have a: "filter (\<lambda>l. src_type (source l) = ''source'') (requirement_section srcs reqs) = requirement_section srcs reqs"
    by (rule filter_all) (auto dest!: requirement_section_kind simp: is_source_requirement_link_def)
  have b: "filter (\<lambda>l. src_type (source l) = ''source'') (objective_section srcs objs) = objective_section srcs objs"
    by (rule filter_all) (auto dest!: objective_section_kind simp: is_source_objective_link_def)
  have c: "filter (\<lambda>l. src_type (source l) = ''source'') (task_section reqs ts) = []"
    by (rule filter_none) (auto dest!: task_section_kind simp: is_requirement_task_link_def)
  show ?thesis by (simp only: build_links_sections filter_append a b c append_Nil2 append_Nil)
qed



subsection \<open>Attribution\<close>

text \<open>
  C8. When no source has the item's source text as its origin type, identifier or
  display name, a requirement or objective is matched to the first source of a non-empty
  registry, and to none when the registry is empty (then no link is pushed).
\<close>

theorem fallback_first_source:
  assumes "\<forall>s \<in> set srcs. Some (s_type s) \<noteq> src \<and> Some (s_id s) \<noteq> src \<and> Some (s_name s) \<noteq> src"
  shows "(r_source req = src \<longrightarrow>
            matchedSource_requirement srcs req = (if srcs = [] then None else Some (srcs ! 0)))
       \<and> (o_source obj = src \<longrightarrow>
            matchedSource_objective srcs obj = (if srcs = [] then None else Some (srcs ! 0)))
       \<and> (r_source req = src \<longrightarrow>
            push_requirement_link srcs req ls =
              (if srcs = [] then ls else ls @ [requirement_link (srcs ! 0) req]))
       \<and> (o_source obj = src \<longrightarrow>
            push_objective_link srcs obj ls =
              (if srcs = [] then ls else ls @ [objective_link (srcs ! 0) obj]))"
proof -
  from assms have f3: "find (\<lambda>s. Some (s_type s) = src \<or> Some (s_id s) = src \<or> Some (s_name s) = src) srcs = None"
    by (auto simp: find_None_iff)
  from assms have f2: "find (\<lambda>s. Some (s_type s) = src \<or> Some (s_name s) = src) srcs = None"
    by (auto simp: find_None_iff)
  have r: "r_source req = src \<longrightarrow>
            matchedSource_requirement srcs req = (if srcs = [] then None else Some (srcs ! 0))"
    using f3 by (auto simp: matchedSource_requirement_def nullish_or_def first_element_conv)
  have ob: "o_source obj = src \<longrightarrow>
            matchedSource_objective srcs obj = (if srcs = [] then None else Some (srcs ! 0))"
    using f2 by (auto simp: matchedSource_objective_def nullish_or_def first_element_conv)
  from r ob show ?thesis
    by (auto simp: push_requirement_link_def push_objective_link_def)
qed

text \<open>
  Scenario B: one \<^verbatim>\<open>slack\<close> source and a requirement whose source is
  \<^verbatim>\<open>unknown-reference\<close>; and the same requirement with no source at all.
\<close>

theorem fallback_first_source_witness:
  "map_option s_id
     (matchedSource_requirement (build_sources [source_of_type ''slack''])
        (build_requirement ''functional'' (requirement_from ''FR-1'' (Some ''unknown-reference''))))
     = Some ''SRC-1''
   \<and> matchedSource_requirement (build_sources [])
        (build_requirement ''functional'' (requirement_from ''FR-1'' (Some ''unknown-reference'')))
     = None"
proof -
  let ?src = "Some ''unknown-reference''"
  let ?req = "build_requirement ''functional'' (requirement_from ''FR-1'' ?src)"
  let ?srcs = "build_sources [source_of_type ''slack'']"
  have h: "\<forall>s \<in> set ?srcs. Some (s_type s) \<noteq> ?src \<and> Some (s_id s) \<noteq> ?src \<and> Some (s_name s) \<noteq> ?src"
    by code_simp
  have h0: "\<forall>s \<in> set (build_sources []). Some (s_type s) \<noteq> ?src \<and> Some (s_id s) \<noteq> ?src \<and> Some (s_name s) \<noteq> ?src"
    by code_simp
  have s: "r_source ?req = ?src" by code_simp
  have e: "map_option s_id (if ?srcs = [] then None else Some (?srcs ! 0)) = Some ''SRC-1''"
    by code_simp
  have e0: "build_sources [] = []" by code_simp
  from fallback_first_source [OF h, of ?req] s
  have "matchedSource_requirement ?srcs ?req = (if ?srcs = [] then None else Some (?srcs ! 0))"
    by blast
  moreover from fallback_first_source [OF h0, of ?req] s e0
  have "matchedSource_requirement (build_sources []) ?req = None"
    by simp
  ultimately show ?thesis using e by simp
qed

text \<open>
  C1, as the code has it. A requirement is matched to the first source, in registry
  order, that has the requirement's source text as its origin type, its identifier or
  its display name: the three tests are alternatives on each source, not three passes
  over the registry. An objective whose source text is no source's identifier is
  matched the same way.
\<close>

theorem first_matching_source_wins:
  assumes "i < length srcs"
    and "Some (s_type (srcs ! i)) = src \<or> Some (s_id (srcs ! i)) = src \<or> Some (s_name (srcs ! i)) = src"
    and "\<forall>j<i. Some (s_type (srcs ! j)) \<noteq> src \<and> Some (s_id (srcs ! j)) \<noteq> src
            \<and> Some (s_name (srcs ! j)) \<noteq> src"
  shows "(r_source req = src \<longrightarrow> matchedSource_requirement srcs req = Some (srcs ! i))
       \<and> (o_source obj = src \<and> (\<forall>s \<in> set srcs. Some (s_id s) \<noteq> src) \<longrightarrow>
            matchedSource_objective srcs obj = Some (srcs ! i))"
proof -
  from assms
  have f3: "find (\<lambda>s. Some (s_type s) = src \<or> Some (s_id s) = src \<or> Some (s_name s) = src) srcs
              = Some (srcs ! i)"
    unfolding find_Some_iff by blast
  have f2: "find (\<lambda>s. Some (s_type s) = src \<or> Some (s_name s) = src) srcs = Some (srcs ! i)"
    if "\<forall>s \<in> set srcs. Some (s_id s) \<noteq> src"
  proof -
    from that assms(1) have "Some (s_id (srcs ! i)) \<noteq> src" by simp
    with assms show ?thesis unfolding find_Some_iff by blast
  qed
  from f3 f2 show ?thesis
    by (auto simp: matchedSource_requirement_def matchedSource_objective_def nullish_or_def)
qed

text \<open>
  C1 as stated is a chain over the whole registry, and matches objectives by identifier.
  With a \<^verbatim>\<open>slack\<close> source named \<^verbatim>\<open>email\<close> followed by an \<^verbatim>\<open>email\<close> source, a requirement
  whose source is \<^verbatim>\<open>email\<close> goes to the first source, by its name, where the chain picks
  the second, by its type. An objective whose source is \<^verbatim>\<open>SRC-2\<close> goes to the first
  source, by the fallback.
\<close>

theorem strategy_chain_counterexample:
  "map_option s_id
     (matchedSource_requirement (build_sources [source_named ''slack'' ''email'', source_of_type ''email''])
        (build_requirement ''functional'' (requirement_from ''FR-1'' (Some ''email''))))
     = Some ''SRC-1''
   \<and> map_option s_id
       (spec_resolve (build_sources [source_named ''slack'' ''email'', source_of_type ''email''])
          (Some ''email''))
     = Some ''SRC-2''
   \<and> map_option s_id
       (matchedSource_objective (build_sources [source_of_type ''slack'', source_of_type ''email''])
          (build_objective (objective_from ''BO-1'' (Some ''SRC-2''))))
     = Some ''SRC-1''
   \<and> map_option s_id
       (spec_resolve (build_sources [source_of_type ''slack'', source_of_type ''email''])
          (Some ''SRC-2''))
     = Some ''SRC-2''"
  by code_simp

text \<open>
  The same registry, and an objective matched by type to the second of two sources.
\<close>

theorem first_matching_source_wins_witness:
  "map_option s_id
     (matchedSource_requirement (build_sources [source_named ''slack'' ''email'', source_of_type ''email''])
        (build_requirement ''functional'' (requirement_from ''FR-1'' (Some ''email''))))
     = Some ''SRC-1''
   \<and> map_option s_id
       (matchedSource_objective (build_sources [source_of_type ''slack'', source_of_type ''email''])
          (build_objective (objective_from ''BO-1'' (Some ''email''))))
     = Some ''SRC-2''"
proof -
  let ?src = "Some ''email''"
  let ?req = "build_requirement ''functional'' (requirement_from ''FR-1'' ?src)"
  let ?obj = "build_objective (objective_from ''BO-1'' ?src)"
  let ?A = "build_sources [source_named ''slack'' ''email'', source_of_type ''email'']"
  let ?B = "build_sources [source_of_type ''slack'', source_of_type ''email'']"
  have a1: "0 < length ?A" by code_simp
  have a2: "Some (s_type (?A ! 0)) = ?src \<or> Some (s_id (?A ! 0)) = ?src \<or> Some (s_name (?A ! 0)) = ?src"
    by code_simp
  have a3: "\<forall>j<0. Some (s_type (?A ! j)) \<noteq> ?src \<and> Some (s_id (?A ! j)) \<noteq> ?src \<and> Some (s_name (?A ! j)) \<noteq> ?src"
    by simp
  have b1: "1 < length ?B" by code_simp
  have b2: "Some (s_type (?B ! 1)) = ?src \<or> Some (s_id (?B ! 1)) = ?src \<or> Some (s_name (?B ! 1)) = ?src"
    by code_simp
  have b3': "Some (s_type (?B ! 0)) \<noteq> ?src \<and> Some (s_id (?B ! 0)) \<noteq> ?src \<and> Some (s_name (?B ! 0)) \<noteq> ?src"
    by code_simp
  have b3: "\<forall>j<1. Some (s_type (?B ! j)) \<noteq> ?src \<and> Some (s_id (?B ! j)) \<noteq> ?src \<and> Some (s_name (?B ! j)) \<noteq> ?src"
    using b3' by simp
  have b4: "\<forall>s \<in> set ?B. Some (s_id s) \<noteq> ?src" by code_simp
  have sr: "r_source ?req = ?src" by code_simp
  have so: "o_source ?obj = ?src" by code_simp
  have ea: "s_id (?A ! 0) = ''SRC-1''" by code_simp
  have eb: "s_id (?B ! 1) = ''SRC-2''" by code_simp
  from first_matching_source_wins [OF a1 a2 a3, of ?req] sr
  have "matchedSource_requirement ?A ?req = Some (?A ! 0)" by blast
  moreover from first_matching_source_wins [OF b1 b2 b3, of _ ?obj] so b4
  have "matchedSource_objective ?B ?obj = Some (?B ! 1)" by blast
  ultimately show ?thesis using ea eb by simp
qed

subsection \<open>Source types and coverage\<close>

lemma map_s_type_build_sources:
  "map s_type (build_sources raws) = map (\<lambda>s. js_or_default (raw_type s) ''document'') raws"
  by (rule nth_equalityI) (simp_all add: length_build_sources build_sources_nth build_source_def)

text \<open>
  C9, as the code has it. The type of the source built from a raw entry is the entry's
  \<^verbatim>\<open>type\<close> field when that field is present and not empty, whether or not it is a key
  of \<^verbatim>\<open>SOURCE_TYPE_CONFIG\<close>, and \<^verbatim>\<open>document\<close> when the field is absent or empty. The
  empty list gives the empty registry.
\<close>

theorem origin_type_kept:
  "build_sources [] = []
   \<and> length (build_sources raws) = length raws
   \<and> map s_type (build_sources raws) =
       map (\<lambda>s. case raw_type s of None \<Rightarrow> ''document''
                 | Some ty \<Rightarrow> if ty = [] then ''document'' else ty) raws"
proof -
  have "build_sources [] = []" by (simp add: build_sources_def)
  moreover have "map s_type (build_sources raws) =
       map (\<lambda>s. case raw_type s of None \<Rightarrow> ''document''
                 | Some ty \<Rightarrow> if ty = [] then ''document'' else ty) raws"
    unfolding map_s_type_build_sources
    by (rule map_cong) (auto simp: js_or_default_def split: option.splits)
  ultimately show ?thesis by (simp add: length_build_sources)
qed

text \<open>
  Five entries: a key of the table, a type in capitals, a bare string, an empty type,
  and a type the table does not have.
\<close>

theorem origin_type_kept_witness:
  "map s_type (build_sources
      [source_of_type ''email'', source_of_type ''Email'', RawString ''pasted'',
       source_of_type [], source_of_type ''zoom''])
     = [''email'', ''Email'', ''document'', ''document'', ''zoom'']"
proof -
  let ?raws = "[source_of_type ''email'', source_of_type ''Email'', RawString ''pasted'',
       source_of_type [], source_of_type ''zoom'']"
  have e: "map (\<lambda>s. case raw_type s of None \<Rightarrow> ''document''
                 | Some ty \<Rightarrow> if ty = [] then ''document'' else ty) ?raws
            = [''email'', ''Email'', ''document'', ''document'', ''zoom'']"
    by code_simp
  from origin_type_kept [of ?raws]
  have "map s_type (build_sources ?raws) = map (\<lambda>s. case raw_type s of None \<Rightarrow> ''document''
                 | Some ty \<Rightarrow> if ty = [] then ''document'' else ty) ?raws"
    by blast
  then show ?thesis by (simp only: e)
qed

text \<open>
  C9 as stated degrades an unrecognized type to \<^verbatim>\<open>document\<close>. The type \<^verbatim>\<open>zoom\<close>, which is
  in lower case already, is no property of the table, and the built source keeps it.
\<close>

theorem origin_type_counterexample:
  "s_type (build_sources [source_of_type ''zoom''] ! 0) = ''zoom''
   \<and> s_type (build_sources [source_of_type ''zoom''] ! 0) \<noteq> ''document''
   \<and> SOURCE_TYPE_CONFIG ''zoom'' = None"
  by code_simp

text \<open>
  The lookup made for display, for any lower-casing function: the table's entry when the
  lower-cased type is a key of the table, the inherited member when it is a name of
  \<^verbatim>\<open>Object.prototype\<close>, and the \<^verbatim>\<open>document\<close> entry otherwise.
\<close>

lemma getSourceTypeConfig_cases:
  "getSourceTypeConfig lower ty =
     (case map_of source_type_table (lower ty) of
        Some c \<Rightarrow> Some (Config c)
      | None \<Rightarrow>
          if lower ty \<in> set object_prototype_names then Some (Inherited (lower ty))
          else Some (Config \<lparr>icon = ''FileUp'', color = ''text-blue-400'',
                              bg = ''bg-blue-500/20'', label = ''Document''\<rparr>))"
proof -
  have d: "SOURCE_TYPE_CONFIG ''document'' =
      Some (Config \<lparr>icon = ''FileUp'', color = ''text-blue-400'',
                      bg = ''bg-blue-500/20'', label = ''Document''\<rparr>)"
    by code_simp
  show ?thesis
    by (simp add: getSourceTypeConfig_def nullish_or_def d)
       (simp add: SOURCE_TYPE_CONFIG_def split: option.splits)
qed

lemma build_requirements_sources:
  "filter (\<lambda>r. truthy (r_source r)) (build_requirements F N) =
     build_requirements (filter (\<lambda>r. truthy (rr_source_doc r)) F) (filter (\<lambda>r. truthy (rr_source_doc r)) N)"
  by (simp add: build_requirements_def filter_map comp_def build_requirement_def)

lemma length_build_requirements: "length (build_requirements F N) = length F + length N"
  by (simp add: build_requirements_def)

lemma requirements_build_traceability:
  "requirements (build_traceability b ts) =
     build_requirements (array_or_empty (functional_requirements b))
       (array_or_empty (non_functional_requirements b))"
  by (simp add: build_traceability_def Let_def)

lemma requirements_with_sources_raw:
  "requirements_with_sources (build_requirements F N) =
     length (filter (\<lambda>r. truthy (rr_source_doc r)) (F @ N))"
  by (simp add: requirements_with_sources_def build_requirements_sources length_build_requirements)

lemma requirements_with_sources_le: "requirements_with_sources reqs \<le> length reqs"
  by (simp add: requirements_with_sources_def)

lemma source_coverage_bounds: "0 \<le> source_coverage reqs \<and> source_coverage reqs \<le> 1"
  using requirements_with_sources_le [of reqs]
  by (simp add: source_coverage_def divide_le_eq)

lemma coverage_no_requirements: "source_coverage [] = 0 \<and> task_coverage [] ts = 0"
  by (simp add: source_coverage_def task_coverage_def)

lemma task_coverage_nonneg: "0 \<le> task_coverage reqs ts"
  by (simp add: task_coverage_def)

lemma no_sources_no_source_links:
  "requirement_section [] reqs = [] \<and> objective_section [] objs = []"
proof -
  have "\<And>req. matchedSource_requirement [] req = None"
    by (simp add: matchedSource_requirement_def nullish_or_def first_element_def)
  moreover have "\<And>obj. matchedSource_objective [] obj = None"
    by (simp add: matchedSource_objective_def nullish_or_def first_element_def)
  ultimately show ?thesis
    by (simp add: requirement_section_def objective_section_def List.map_filter_def)
qed

lemma ratio_zero_iff:
  "(if xs = [] then 0 else of_nat (length (filter P xs)) / of_nat (length xs)) = (0::rat)
     \<longleftrightarrow> (\<forall>x \<in> set xs. \<not> P x)"
  by (cases "xs = []") (simp_all add: filter_empty_conv)

text \<open>
  C2, as the code has it. The source coverage is the number of requirements whose own
  source field is truthy, divided by the number of requirements, and 0 when there are
  none; the links are not consulted. It is 0 exactly when no requirement has a truthy
  source field. With an empty raw-source list no link starts at a source, and the fetch
  returns a state and no error.
\<close>

theorem source_coverage_counts_source_fields:
  "source_coverage (requirements (build_traceability b ts)) =
     (if array_or_empty (functional_requirements b) @ array_or_empty (non_functional_requirements b) = []
      then 0
      else of_nat (length (filter (\<lambda>r. truthy (rr_source_doc r))
                     (array_or_empty (functional_requirements b) @
                      array_or_empty (non_functional_requirements b))))
           / of_nat (length (array_or_empty (functional_requirements b) @
                             array_or_empty (non_functional_requirements b))))
   \<and> (source_coverage (requirements (build_traceability b ts)) = 0 \<longleftrightarrow>
        (\<forall>r \<in> set (array_or_empty (functional_requirements b) @
                     array_or_empty (non_functional_requirements b)). \<not> truthy (rr_source_doc r)))
   \<and> (array_or_empty (raw_sources b) = [] \<longrightarrow>
        filter (\<lambda>l. src_type (source l) = ''source'') (links (build_traceability b ts)) = []
        \<and> fetchTraceability (Inr b) (Inr ts) = Inr (build_traceability b ts))"
proof -
  let ?F = "array_or_empty (functional_requirements b)"
  let ?N = "array_or_empty (non_functional_requirements b)"
  let ?tr = "build_traceability b ts"
  have a: "source_coverage (requirements ?tr) =
     (if ?F @ ?N = [] then 0
      else of_nat (length (filter (\<lambda>r. truthy (rr_source_doc r)) (?F @ ?N))) / of_nat (length (?F @ ?N)))"
    by (simp add: source_coverage_def requirements_build_traceability length_build_requirements
        requirements_with_sources_raw)
  have b: "source_coverage (requirements ?tr) = 0 \<longleftrightarrow>
        (\<forall>r \<in> set (?F @ ?N). \<not> truthy (rr_source_doc r))"
    unfolding a by (rule ratio_zero_iff)
  have c: "array_or_empty (raw_sources b) = [] \<longrightarrow>
        filter (\<lambda>l. src_type (source l) = ''source'') (links ?tr) = []
        \<and> fetchTraceability (Inr b) (Inr ts) = Inr ?tr"
  proof
    assume "array_or_empty (raw_sources b) = []"
    then have "sources ?tr = []"
      by (simp add: sources_build_traceability build_sources_def)
    then show "filter (\<lambda>l. src_type (source l) = ''source'') (links ?tr) = []
        \<and> fetchTraceability (Inr b) (Inr ts) = Inr ?tr"
      unfolding links_build_traceability filter_source_links
      by (simp add: no_sources_no_source_links fetchTraceability_def)
  qed
  from a b c show ?thesis by blast
qed

text \<open>
  C2 as stated counts requirements with a link from a source. With no raw source and two
  requirements that both name \<^verbatim>\<open>email\<close> as their source there is no link at all, and
  the coverage is 1.
\<close>

theorem source_coverage_counterexample:
  "links (build_traceability
      (brd_of [] [] [requirement_from ''FR-1'' (Some ''email''), requirement_from ''FR-2'' (Some ''email'')] [])
      None) = []
   \<and> source_coverage (requirements (build_traceability
      (brd_of [] [] [requirement_from ''FR-1'' (Some ''email''), requirement_from ''FR-2'' (Some ''email'')] [])
      None)) = 1
   \<and> spec_source_coverage
       (links (build_traceability
         (brd_of [] [] [requirement_from ''FR-1'' (Some ''email''), requirement_from ''FR-2'' (Some ''email'')] [])
         None))
       (requirements (build_traceability
         (brd_of [] [] [requirement_from ''FR-1'' (Some ''email''), requirement_from ''FR-2'' (Some ''email'')] [])
         None)) = 0"
  by code_simp

lemma source_ids_task_section:
  "map (\<lambda>l. src_id (source l)) (task_section reqs ts) =
     map t_requirement_id
       (filter (\<lambda>t. truthy (t_requirement_id t) \<and> t_requirement_id t \<in> r_id ` set reqs) ts)"
proof (induction ts)
  case Nil
  show ?case by (simp add: task_section_def)
next
  case (Cons t ts)
  show ?case
  proof (cases "find (\<lambda>r. r_id r = t_requirement_id t) reqs")
    case None
    then have "t_requirement_id t \<notin> r_id ` set reqs"
      by (auto simp: find_None_iff)
    with None Cons show ?thesis
      by (simp add: task_section_def)
  next
    case (Some r)
    then have "r \<in> set reqs" and eq: "r_id r = t_requirement_id t"
      by (auto simp: find_Some_iff)
    then have "t_requirement_id t \<in> r_id ` set reqs"
      by force
    with Some Cons eq show ?thesis
      by (simp add: task_section_def task_link_def)
  qed
qed

text \<open>
  When every truthy \<^verbatim>\<open>requirement_id\<close> of a task is the identifier of a requirement, the
  number the component shows is the number counted on the links.
\<close>

lemma task_coverage_agrees_without_orphans:
  assumes "\<forall>t \<in> set ts. truthy (t_requirement_id t) \<longrightarrow> t_requirement_id t \<in> r_id ` set reqs"
  shows "requirements_with_tasks ts =
           spec_requirements_with_task_links (build_links srcs objs reqs ts) reqs"
proof -
  let ?S = "set (map t_requirement_id (filter (\<lambda>t. truthy (t_requirement_id t)) ts))"
  from assms
  have f: "filter (\<lambda>t. truthy (t_requirement_id t) \<and> t_requirement_id t \<in> r_id ` set reqs) ts =
           filter (\<lambda>t. truthy (t_requirement_id t)) ts"
    by (intro filter_cong) auto
  have sub: "?S \<subseteq> r_id ` set reqs"
    using assms by auto
  have "set (filter (\<lambda>rid. rid \<in> ?S) (map r_id reqs)) = ?S"
    using sub by auto
  then have "length (remdups (filter (\<lambda>rid. rid \<in> ?S) (map r_id reqs))) = card ?S"
    by (simp only: length_remdups_card_conv)
  then show ?thesis
    by (simp only: requirements_with_tasks_def spec_requirements_with_task_links_def
        filter_task_links source_ids_task_section f length_remdups_card_conv)
qed

text \<open>
  C3, at an input where the code departs from it. One requirement \<^verbatim>\<open>FR-1\<close> and two
  tasks, one for \<^verbatim>\<open>FR-1\<close> and one for \<^verbatim>\<open>FR-99\<close>, which is no requirement. The only link
  is from \<^verbatim>\<open>FR-1\<close> to the first task, so one requirement has a task and the coverage
  counted on the links is 1. The component counts the distinct \<^verbatim>\<open>requirement_id\<close> values
  of the tasks, without looking them up, and shows 2.
\<close>

theorem task_coverage_orphan_counted:
  "task_coverage
     (requirements (build_traceability (brd_of [] [] [requirement_from ''FR-1'' None] [])
        (Some [task_for ''t1'' (Some ''FR-1''), task_for ''t2'' (Some ''FR-99'')])))
     (tasks (build_traceability (brd_of [] [] [requirement_from ''FR-1'' None] [])
        (Some [task_for ''t1'' (Some ''FR-1''), task_for ''t2'' (Some ''FR-99'')]))) = 2
   \<and> map (\<lambda>l. (src_id (source l), tgt_id (target l)))
       (links (build_traceability (brd_of [] [] [requirement_from ''FR-1'' None] [])
          (Some [task_for ''t1'' (Some ''FR-1''), task_for ''t2'' (Some ''FR-99'')])))
     = [(Some ''FR-1'', Some ''t1'')]
   \<and> spec_task_coverage
       (links (build_traceability (brd_of [] [] [requirement_from ''FR-1'' None] [])
          (Some [task_for ''t1'' (Some ''FR-1''), task_for ''t2'' (Some ''FR-99'')])))
       (requirements (build_traceability (brd_of [] [] [requirement_from ''FR-1'' None] [])
          (Some [task_for ''t1'' (Some ''FR-1''), task_for ''t2'' (Some ''FR-99'')]))) = 1"
  by code_simp

text \<open>
  C4, at an input where the code departs from it. One requirement and three tasks with
  three different \<^verbatim>\<open>requirement_id\<close> values, two of which are no requirement: the task
  coverage is above 1 and the progress bar is given a width of 300 percent. The lemmas
  \<open>source_coverage_bounds\<close>, \<open>task_coverage_nonneg\<close> and \<open>coverage_no_requirements\<close> are
  the part of C4 that the code keeps.
\<close>

theorem task_coverage_exceeds_one:
  "\<not> task_coverage
       (requirements (build_traceability (brd_of [source_of_type ''email''] [] [requirement_from ''FR-1'' (Some ''email'')] [])
          (Some [task_for ''t1'' (Some ''FR-1''), task_for ''t2'' (Some ''FR-2''), task_for ''t3'' (Some ''FR-3'')])))
       (tasks (build_traceability (brd_of [source_of_type ''email''] [] [requirement_from ''FR-1'' (Some ''email'')] [])
          (Some [task_for ''t1'' (Some ''FR-1''), task_for ''t2'' (Some ''FR-2''), task_for ''t3'' (Some ''FR-3'')])))
     \<le> 1
   \<and> task_coverage_width
       (requirements (build_traceability (brd_of [source_of_type ''email''] [] [requirement_from ''FR-1'' (Some ''email'')] [])
          (Some [task_for ''t1'' (Some ''FR-1''), task_for ''t2'' (Some ''FR-2''), task_for ''t3'' (Some ''FR-3'')])))
       (tasks (build_traceability (brd_of [source_of_type ''email''] [] [requirement_from ''FR-1'' (Some ''email'')] [])
          (Some [task_for ''t1'' (Some ''FR-1''), task_for ''t2'' (Some ''FR-2''), task_for ''t3'' (Some ''FR-3'')])))
     = 300"
  by code_simp

text \<open>
  Scenario C with requirements that name no source, and a list where one of two
  requirements names one.
\<close>

theorem source_coverage_counts_source_fields_witness:
  "source_coverage (requirements (build_traceability
      (brd_of [] [] [requirement_from ''FR-1'' None] [requirement_from ''NFR-1'' None]) None)) = 0
   \<and> filter (\<lambda>l. src_type (source l) = ''source'') (links (build_traceability
      (brd_of [] [] [requirement_from ''FR-1'' None] [requirement_from ''NFR-1'' None]) None)) = []
   \<and> source_coverage (requirements (build_traceability
      (brd_of [source_of_type ''email''] [] [requirement_from ''FR-1'' (Some ''email'')] [requirement_from ''NFR-1'' None])
      None)) = 1 / 2"
proof -
  let ?b = "brd_of [] [] [requirement_from ''FR-1'' None] [requirement_from ''NFR-1'' None]"
  let ?c = "brd_of [source_of_type ''email''] [] [requirement_from ''FR-1'' (Some ''email'')] [requirement_from ''NFR-1'' None]"
  have h1: "\<forall>r \<in> set (array_or_empty (functional_requirements ?b) @
                     array_or_empty (non_functional_requirements ?b)). \<not> truthy (rr_source_doc r)"
    by code_simp
  have h2: "array_or_empty (raw_sources ?b) = []" by code_simp
  have e: "(if array_or_empty (functional_requirements ?c) @ array_or_empty (non_functional_requirements ?c) = []
      then 0
      else of_nat (length (filter (\<lambda>r. truthy (rr_source_doc r))
                     (array_or_empty (functional_requirements ?c) @
                      array_or_empty (non_functional_requirements ?c))))
           / of_nat (length (array_or_empty (functional_requirements ?c) @
                             array_or_empty (non_functional_requirements ?c)))) = (1 / 2 :: rat)"
    by code_simp
  from source_coverage_counts_source_fields [of ?b None] h1 h2
  have "source_coverage (requirements (build_traceability ?b None)) = 0"
    and "filter (\<lambda>l. src_type (source l) = ''source'') (links (build_traceability ?b None)) = []"
    by blast+
  moreover from source_coverage_counts_source_fields [of ?c None] e
  have "source_coverage (requirements (build_traceability ?c None)) = 1 / 2"
    by simp
  ultimately show ?thesis by simp
qed

text \<open>
  One source, one objective, a functional and a non-functional requirement, one task.
\<close>

theorem link_order_witness:
  "map (\<lambda>l. (src_id (source l), tgt_id (target l)))
     (links (build_traceability
        (brd_of [source_of_type ''email''] [objective_from ''BO-1'' None]
           [requirement_from ''FR-1'' (Some ''email'')] [requirement_from ''NFR-1'' None])
        (Some [task_for ''t1'' (Some ''NFR-1'')])))
   = [(Some ''SRC-1'', Some ''FR-1''), (Some ''SRC-1'', Some ''NFR-1''),
      (Some ''SRC-1'', Some ''BO-1''), (Some ''NFR-1'', Some ''t1'')]"
proof -
  let ?tr = "build_traceability
        (brd_of [source_of_type ''email''] [objective_from ''BO-1'' None]
           [requirement_from ''FR-1'' (Some ''email'')] [requirement_from ''NFR-1'' None])
        (Some [task_for ''t1'' (Some ''NFR-1'')])"
  let ?f = "\<lambda>l. (src_id (source l), tgt_id (target l))"
  have a: "map ?f (requirement_section (sources ?tr) (requirements ?tr)) =
             [(Some ''SRC-1'', Some ''FR-1''), (Some ''SRC-1'', Some ''NFR-1'')]"
    by code_simp
  have b: "map ?f (objective_section (sources ?tr) (objectives ?tr)) = [(Some ''SRC-1'', Some ''BO-1'')]"
    by code_simp
  have c: "map ?f (task_section (requirements ?tr) (tasks ?tr)) = [(Some ''NFR-1'', Some ''t1'')]"
    by code_simp
  from link_order [of "brd_of [source_of_type ''email''] [objective_from ''BO-1'' None]
           [requirement_from ''FR-1'' (Some ''email'')] [requirement_from ''NFR-1'' None]"
        "Some [task_for ''t1'' (Some ''NFR-1'')]"]
  have "links ?tr = requirement_section (sources ?tr) (requirements ?tr)
     @ objective_section (sources ?tr) (objectives ?tr)
     @ task_section (requirements ?tr) (tasks ?tr)"
    by blast
  then have "map ?f (links ?tr) = map ?f (requirement_section (sources ?tr) (requirements ?tr))
     @ map ?f (objective_section (sources ?tr) (objectives ?tr))
     @ map ?f (task_section (requirements ?tr) (tasks ?tr))"
    by (simp only: map_append)
  then show ?thesis by (simp only: a b c append.simps)
qed

text \<open>
  Scenario E: the task for \<^verbatim>\<open>FR-99\<close> has no link; the link of the other task ends at
  nodes of the state.
\<close>

theorem no_dangling_links_witness:
  "map target (filter (\<lambda>l. tgt_type (target l) = ''task'')
     (links (build_traceability
        (brd_of [source_of_type ''email''] [] [requirement_from ''FR-1'' (Some ''email'')] [])
        (Some [task_for ''t1'' (Some ''FR-1''), task_for ''t2'' (Some ''FR-99'')]))))
   = [\<lparr>tgt_id = Some ''t1'', tgt_type = ''task'', tgt_name = Some ''task''\<rparr>]
   \<and> (''task'', Some ''t1'') \<in> node_keys (build_traceability
        (brd_of [source_of_type ''email''] [] [requirement_from ''FR-1'' (Some ''email'')] [])
        (Some [task_for ''t1'' (Some ''FR-1''), task_for ''t2'' (Some ''FR-99'')]))
   \<and> (''requirement'', Some ''FR-1'') \<in> node_keys (build_traceability
        (brd_of [source_of_type ''email''] [] [requirement_from ''FR-1'' (Some ''email'')] [])
        (Some [task_for ''t1'' (Some ''FR-1''), task_for ''t2'' (Some ''FR-99'')]))"
proof -
  let ?b = "brd_of [source_of_type ''email''] [] [requirement_from ''FR-1'' (Some ''email'')] []"
  let ?ts = "Some [task_for ''t1'' (Some ''FR-1''), task_for ''t2'' (Some ''FR-99'')]"
  let ?tr = "build_traceability ?b ?ts"
  let ?l = "task_link (build_requirement ''functional'' (requirement_from ''FR-1'' (Some ''email'')))
              (task_for ''t1'' (Some ''FR-1''))"
  have m: "?l \<in> set (links ?tr)" by code_simp
  have e: "map (\<lambda>t. \<lparr>tgt_id = Some (t_id t), tgt_type = ''task'', tgt_name = Some (t_title t)\<rparr>)
         (filter (\<lambda>t. truthy (t_requirement_id t)
                     \<and> t_requirement_id t \<in> r_id ` set (requirements ?tr))
            (tasks ?tr)) = [\<lparr>tgt_id = Some ''t1'', tgt_type = ''task'', tgt_name = Some ''task''\<rparr>]"
    by code_simp
  have s: "(src_type (source ?l), src_id (source ?l)) = (''requirement'', Some ''FR-1'')"
    by code_simp
  have t: "(tgt_type (target ?l), tgt_id (target ?l)) = (''task'', Some ''t1'')"
    by code_simp
  from no_dangling_links [of ?b ?ts] m
  have "(src_type (source ?l), src_id (source ?l)) \<in> node_keys ?tr"
    and "(tgt_type (target ?l), tgt_id (target ?l)) \<in> node_keys ?tr"
    and "map target (filter (\<lambda>l. tgt_type (target l) = ''task'') (links ?tr)) =
         map (\<lambda>t. \<lparr>tgt_id = Some (t_id t), tgt_type = ''task'', tgt_name = Some (t_title t)\<rparr>)
         (filter (\<lambda>t. truthy (t_requirement_id t)
                     \<and> t_requirement_id t \<in> r_id ` set (requirements ?tr))
            (tasks ?tr))"
    by blast+
  then show ?thesis by (simp only: e s t simp_thms)
qed


end
